theory Spec2Isabelle
  imports Main "HOL-Library.Sublist"
begin

section \<open>JavaScript strings and the operators the sources use on them\<close>

text \<open>
  A JavaScript string is modelled as a \<^typ>\<open>string\<close> holding the UTF-8 bytes of its text;
  the characters outside ASCII that occur in the sources (the emoji of the console messages)
  are written as their bytes. An absent property (\<^verbatim>\<open>undefined\<close>) is \<^term>\<open>None\<close>.
\<close>

definition newline :: char where
  "newline = CHR 0x0A"

text \<open>The lines of a template literal, joined by the line breaks that separate them.\<close>

fun join_lines :: "string list \<Rightarrow> string" where
  "join_lines [] = []"
| "join_lines [l] = l"
| "join_lines (l # m # ls) = l @ newline # join_lines (m # ls)"

text \<open>Truthiness of a string: every string except the empty one.\<close>

definition truthy :: "string \<Rightarrow> bool" where
  "truthy s = (s \<noteq> [])"

text \<open>\<^verbatim>\<open>v || d\<close> where \<^verbatim>\<open>v\<close> is a string or undefined and \<^verbatim>\<open>d\<close> a string.\<close>

definition or_else :: "string option \<Rightarrow> string \<Rightarrow> string" where
  "or_else v d = (case v of None \<Rightarrow> d | Some s \<Rightarrow> if truthy s then s else d)"

text \<open>\<^verbatim>\<open>a && b\<close> on strings: the left operand when it is falsy, else the right one.\<close>

definition and_also :: "string \<Rightarrow> string \<Rightarrow> string" where
  "and_also a b = (if truthy a then b else a)"

text \<open>\<^verbatim>\<open>s.includes(t)\<close>.\<close>

definition str_includes :: "string \<Rightarrow> string \<Rightarrow> bool" where
  "str_includes s t = sublist t s"

section \<open>firebase-sw-config.ts\<close>

type_synonym env = "string \<rightharpoonup> string"

text \<open>
  What the generator reads from its surroundings: \<^verbatim>\<open>process.env\<close>, which is \<^term>\<open>None\<close> when
  \<^verbatim>\<open>process\<close> is undefined or has no \<^verbatim>\<open>env\<close>, and \<^verbatim>\<open>import.meta.env\<close>.
\<close>

record js_world =
  process_env :: "env option"
  import_meta_env :: env

record config =
  apiKey :: string
  authDomain :: string
  projectId :: string
  storageBucket :: string
  messagingSenderId :: string
  appId :: string

text \<open>
  The constant \<^verbatim>\<open>env\<close> of getFirebaseServiceWorkerConfig:
  \<^verbatim>\<open>typeof process !== 'undefined' && process.env ? process.env : import.meta.env\<close>.
\<close>

definition selected_env :: "js_world \<Rightarrow> env" where
  "selected_env w = (case process_env w of Some pe \<Rightarrow> pe | None \<Rightarrow> import_meta_env w)"

definition getFirebaseServiceWorkerConfig :: "js_world \<Rightarrow> config" where
  "getFirebaseServiceWorkerConfig w =
     (let env = selected_env w in
      \<lparr>apiKey = or_else (env ''VITE_FIREBASE_API_KEY'') [],
       authDomain = or_else (env ''VITE_FIREBASE_AUTH_DOMAIN'') [],
       projectId = or_else (env ''VITE_FIREBASE_PROJECT_ID'') [],
       storageBucket = or_else (env ''VITE_FIREBASE_STORAGE_BUCKET'') [],
       messagingSenderId = or_else (env ''VITE_FIREBASE_MESSAGING_SENDER_ID'') [],
       appId = or_else (env ''VITE_FIREBASE_APP_ID'') []\<rparr>)"

text \<open>
  The constant \<^verbatim>\<open>hasValidConfig\<close> of generateFirebaseServiceWorkerContent:
  \<^verbatim>\<open>config.apiKey && config.projectId && config.messagingSenderId\<close>, a string.
\<close>

definition hasValidConfig :: "config \<Rightarrow> string" where
  "hasValidConfig config =
     and_also (and_also (apiKey config) (projectId config)) (messagingSenderId config)"

text \<open>The template literal, lines 26 to 31: the comment that opens the script.\<close>

definition sw_preamble :: "string list" where
  "sw_preamble =
   [''/**'',
    '' * Firebase Cloud Messaging Service Worker for MedTrack'',
    '' * Handles FCM push notifications when app is closed or in background'',
    '' * Generated automatically during build process'',
    '' */'',
    '''']"

text \<open>Lines 32 to 45: the text of the first branch of the conditional.\<close>

definition sw_enabled_config :: "config \<Rightarrow> string list" where
  \<open>sw_enabled_config config =
   ['''',
    ''// Import Firebase scripts for service worker'',
    ''importScripts('https://www.gstatic.com/firebasejs/10.7.1/firebase-app-compat.js');'',
    ''importScripts('https://www.gstatic.com/firebasejs/10.7.1/firebase-messaging-compat.js');'',
    '''',
    ''// Firebase configuration'',
    ''const firebaseConfig = {'',
    ''  apiKey: "'' @ apiKey config @ ''",'',
    ''  authDomain: "'' @ authDomain config @ ''",'',
    ''  projectId: "'' @ projectId config @ ''",'',
    ''  storageBucket: "'' @ storageBucket config @ ''",'',
    ''  messagingSenderId: "'' @ messagingSenderId config @ ''",'',
    ''  appId: "'' @ appId config @ ''"'',
    ''};'']\<close>

text \<open>Lines 45 to 48: the text of the second branch.\<close>

definition sw_disabled_config :: "string list" where
  "sw_disabled_config =
   ['''',
    ''// Firebase configuration not available - FCM disabled in development'',
    ''console.warn('' @ [CHR 0x27, CHR 0xF0, CHR 0x9F, CHR 0x9A, CHR 0xA7] @ '' Firebase configuration not available - FCM disabled');'',
    ''const firebaseConfig = null;'']"

text \<open>Lines 49 to 124: the rest of the script, the same in both branches.\<close>

definition sw_body :: "string list" where
  "sw_body =
   ['''',
    ''// Initialize Firebase in service worker'',
    ''let messaging = null;'',
    '''',
    ''try {'',
    ''  if (firebaseConfig && firebaseConfig.apiKey && firebaseConfig.projectId) {'',
    ''    // Only initialize Firebase if we have valid configuration'',
    ''    firebase.initializeApp(firebaseConfig);'',
    ''    messaging = firebase.messaging();'',
    ''    '',
    ''    console.log('' @ [CHR 0x27, CHR 0xF0, CHR 0x9F, CHR 0x94, CHR 0xA5] @ '' Firebase messaging initialized in service worker');'',
    '''',
    ''    // Handle background push messages'',
    ''    messaging.onBackgroundMessage((payload) => {'',
    ''      console.log('' @ [CHR 0x27, CHR 0xF0, CHR 0x9F, CHR 0x93, CHR 0xB1] @ '' FCM background message received:', payload);'',
    ''      '',
    ''      try {'',
    ''        // Extract notification data'',
    ''        const notificationTitle = payload.notification?.title || 'MedTrack Reminder';'',
    ''        const notificationOptions = {'',
    ''          body: payload.notification?.body || 'Time for your medication','',
    ''          icon: payload.notification?.icon || '/pill-icon.svg','',
    ''          badge: '/pill-icon.svg','',
    ''          data: {'',
    ''            ...payload.data,'',
    ''            fcm: true,'',
    ''            timestamp: Date.now()'',
    ''          },'',
    ''          tag: payload.data?.medicationId ? `medication_${payload.data.medicationId}` : 'medtrack-fcm','',
    ''          requireInteraction: true,'',
    ''          actions: ['',
    ''            { action: 'take', title: '' @ [CHR 0x27, CHR 0xE2, CHR 0x9C, CHR 0x85] @ '' Taken', icon: '/pill-icon.svg' },'',
    ''            { action: 'snooze', title: '' @ [CHR 0x27, CHR 0xE2, CHR 0x8F, CHR 0xB0] @ '' Snooze 15min', icon: '/pill-icon.svg' },'',
    ''            { action: 'skip', title: '' @ [CHR 0x27, CHR 0xE2, CHR 0x8F, CHR 0xB8, CHR 0xEF, CHR 0xB8, CHR 0x8F] @ '' Skip', icon: '/pill-icon.svg' }'',
    ''          ],'',
    ''          vibrate: [200, 100, 200],'',
    ''          silent: false,'',
    ''          renotify: true'',
    ''        };'',
    '''',
    ''        // Show the notification'',
    ''        return self.registration.showNotification(notificationTitle, notificationOptions);'',
    ''        '',
    ''      } catch (error) {'',
    ''        console.error('Failed to show FCM background notification:', error);'',
    ''        '',
    ''        // Fallback notification'',
    ''        return self.registration.showNotification('MedTrack Reminder', {'',
    ''          body: 'Time for your medication','',
    ''          icon: '/pill-icon.svg','',
    ''          badge: '/pill-icon.svg','',
    ''          requireInteraction: true'',
    ''        });'',
    ''      }'',
    ''    });'',
    '''',
    ''    console.log('' @ [CHR 0x27, CHR 0xE2, CHR 0x9C, CHR 0x85] @ '' Firebase messaging service worker ready');'',
    ''  } else {'',
    ''    console.warn('' @ [CHR 0x27, CHR 0xE2, CHR 0x9A, CHR 0xA0, CHR 0xEF, CHR 0xB8, CHR 0x8F] @ '' Firebase configuration incomplete - FCM disabled in development');'',
    ''  }'',
    '''',
    ''} catch (error) {'',
    ''  console.error('' @ [CHR 0x27, CHR 0xE2, CHR 0x9D, CHR 0x8C] @ '' Failed to initialize Firebase in service worker:', error);'',
    ''}'',
    '''',
    ''// Always create a fallback messaging object to prevent errors'',
    ''if (!messaging) {'',
    ''  messaging = {'',
    ''    onBackgroundMessage: () => {'',
    ''      console.warn('Firebase messaging not available - background push notifications disabled');'',
    ''    }'',
    ''  };'',
    ''}'',
    '''',
    ''// Export messaging for potential use by main service worker'',
    ''self.firebaseMessaging = messaging;'']"

definition generateFirebaseServiceWorkerContent :: "js_world \<Rightarrow> string" where
  "generateFirebaseServiceWorkerContent w =
     (let config = getFirebaseServiceWorkerConfig w;
          hasValid = hasValidConfig config
      in join_lines
           (sw_preamble
            @ [if truthy hasValid then join_lines (sw_enabled_config config)
               else join_lines sw_disabled_config]
            @ sw_body))"

section \<open>The background-message handler of the generated script\<close>

text \<open>
  Lines 62 to 103 of the template are the handler that the script registers with
  \<^verbatim>\<open>messaging.onBackgroundMessage\<close>. It is translated here as the function that it is.
  A message payload has an optional \<^verbatim>\<open>notification\<close> part and an optional \<^verbatim>\<open>data\<close> part, whose
  values are strings. The fields of the notification part carry the prefix \<open>n_\<close>, those of
  the payload the prefix \<open>p_\<close> and those of an action the prefix \<open>a_\<close>, so that the fields of
  the notification options keep the names of the source.
\<close>

type_synonym js_error = string

datatype js_value = JString string | JBool bool | JNumber int

record fcm_notification =
  n_title :: "string option"
  n_body :: "string option"
  n_icon :: "string option"

record payload =
  p_notification :: "fcm_notification option"
  p_data :: "(string \<rightharpoonup> string) option"

record notification_action =
  a_action :: string
  a_title :: string
  a_icon :: string

text \<open>The second argument of \<^verbatim>\<open>showNotification\<close>; a property the object literal leaves out is \<^term>\<open>None\<close>.\<close>

record notification_options =
  body :: string
  icon :: string
  badge :: string
  data :: "(string \<rightharpoonup> js_value) option"
  tag :: "string option"
  requireInteraction :: bool
  actions :: "notification_action list option"
  vibrate :: "nat list option"
  silent :: "bool option"
  renotify :: "bool option"

text \<open>\<^verbatim>\<open>{ ...payload.data }\<close>: the properties of the data part, none when it is undefined.\<close>

definition spread :: "(string \<rightharpoonup> string) option \<Rightarrow> (string \<rightharpoonup> js_value)" where
  "spread d = (case d of None \<Rightarrow> Map.empty | Some m \<Rightarrow> (\<lambda>k. map_option JString (m k)))"

definition notificationTitle :: "payload \<Rightarrow> string" where
  "notificationTitle p = or_else (Option.bind (p_notification p) n_title) ''MedTrack Reminder''"

text \<open>\<^verbatim>\<open>payload.data?.medicationId\<close>.\<close>

definition medicationId_of :: "payload \<Rightarrow> string option" where
  "medicationId_of p = Option.bind (p_data p) (\<lambda>d. d ''medicationId'')"

text \<open>The object literal of lines 68 to 87; \<open>now\<close> is the value of \<^verbatim>\<open>Date.now()\<close>.\<close>

definition notificationOptions :: "int \<Rightarrow> payload \<Rightarrow> notification_options" where
  "notificationOptions now p =
     \<lparr>body = or_else (Option.bind (p_notification p) n_body) ''Time for your medication'',
      icon = or_else (Option.bind (p_notification p) n_icon) ''/pill-icon.svg'',
      badge = ''/pill-icon.svg'',
      data = Some ((spread (p_data p))(''fcm'' \<mapsto> JBool True, ''timestamp'' \<mapsto> JNumber now)),
      tag = Some (case medicationId_of p of
                    None \<Rightarrow> ''medtrack-fcm''
                  | Some medicationId \<Rightarrow>
                      if truthy medicationId then ''medication_'' @ medicationId
                      else ''medtrack-fcm''),
      requireInteraction = True,
      actions = Some
        [\<lparr>a_action = ''take'', a_title = ([CHR 0xE2, CHR 0x9C, CHR 0x85] @ '' Taken''), a_icon = ''/pill-icon.svg''\<rparr>,
         \<lparr>a_action = ''snooze'', a_title = ([CHR 0xE2, CHR 0x8F, CHR 0xB0] @ '' Snooze 15min''), a_icon = ''/pill-icon.svg''\<rparr>,
         \<lparr>a_action = ''skip'', a_title = ([CHR 0xE2, CHR 0x8F, CHR 0xB8, CHR 0xEF, CHR 0xB8, CHR 0x8F] @ '' Skip''), a_icon = ''/pill-icon.svg''\<rparr>],
      vibrate = Some [200, 100, 200],
      silent = Some False,
      renotify = Some True\<rparr>"

text \<open>The object literal of lines 96 to 101.\<close>

definition fallbackOptions :: notification_options where
  "fallbackOptions =
     \<lparr>body = ''Time for your medication'',
      icon = ''/pill-icon.svg'',
      badge = ''/pill-icon.svg'',
      data = None,
      tag = None,
      requireInteraction = True,
      actions = None,
      vibrate = None,
      silent = None,
      renotify = None\<rparr>"

datatype sw_event =
    SwConsoleLog string payload
  | SwConsoleError string js_error
  | ShowNotification string notification_options

text \<open>
  The handler. \<open>showNotification\<close> stands for \<^verbatim>\<open>self.registration.showNotification\<close>: it
  answers \<^term>\<open>Some error\<close> when the call throws \<open>error\<close> and \<^term>\<open>None\<close> when it returns its
  promise. The result is what the handler did, in order, and the error it throws, if any.
\<close>

definition onBackgroundMessage ::
  "(string \<Rightarrow> notification_options \<Rightarrow> js_error option) \<Rightarrow> int \<Rightarrow> payload
     \<Rightarrow> sw_event list \<times> js_error option" where
  "onBackgroundMessage showNotification now p =
     (let received = SwConsoleLog ([CHR 0xF0, CHR 0x9F, CHR 0x93, CHR 0xB1] @ '' FCM background message received:'') p;
          title = notificationTitle p;
          options = notificationOptions now p
      in case showNotification title options of
           None \<Rightarrow> ([received, ShowNotification title options], None)
         | Some error \<Rightarrow>
             ([received, ShowNotification title options,
               SwConsoleError ''Failed to show FCM background notification:'' error,
               ShowNotification ''MedTrack Reminder'' fallbackOptions],
              showNotification ''MedTrack Reminder'' fallbackOptions))"

text \<open>The notifications a run of the handler asked the browser to display, in order.\<close>

fun displayed :: "sw_event list \<Rightarrow> (string \<times> notification_options) list" where
  "displayed [] = []"
| "displayed (ShowNotification title options # es) = (title, options) # displayed es"
| "displayed (_ # es) = displayed es"

section \<open>The bootstrap task of the App component\<close>

text \<open>
  The services the task calls are outside the repository. One execution of the task is
  described by what each of its calls answered in that execution: an awaited call resolves
  (\<^term>\<open>Inr\<close>) or rejects (\<^term>\<open>Inl\<close>), the call of \<^verbatim>\<open>checkMissedNotifications\<close>, which is not
  awaited, returns (\<^term>\<open>None\<close>) or throws (\<^term>\<open>Some\<close>). What the task does is the list of its
  console lines and service calls, in order.
\<close>

datatype console_level = ConsoleLog | ConsoleWarn | ConsoleError

record diagnostic =
  coreIssue :: string

datatype console_arg = Text string | Thrown js_error | DiagnosticResult diagnostic

datatype ('r, 'm, 'p) app_event =
    Console console_level "console_arg list"
  | BackendInitialize
  | SyncUserDataToBackend "'r list" "'m list" "'p option"
  | MigrateExistingReminders "'r list" "'m list"
  | DiagnoseIOSPWANotificationIssues
  | ImplementMissedDoseRecovery
  | CheckMissedNotifications

record ('r, 'm, 'p) store_state =
  reminders :: "'r list"
  medications :: "'m list"
  userProfile :: "'p option"

record ('r, 'm, 'p) execution =
  store_at_start :: "('r, 'm, 'p) store_state"
  store_at_sync :: "('r, 'm, 'p) store_state"
  initialize_outcome :: "js_error + unit"
  sync_outcome :: "js_error + bool"
  migrate_outcome :: "js_error + unit"
  diagnose_outcome :: "js_error + diagnostic"
  recovery_outcome :: "js_error + unit"
  check_outcome :: "js_error option"
  fallback_check_outcome :: "js_error option"

text \<open>
  The body of the first \<^verbatim>\<open>try\<close> (lines 55 to 73), with the error that leaves it, if any.
  \<open>store_at_start\<close> is the state read at line 51, \<open>store_at_sync\<close> the one read at line 65.
\<close>

definition backend_sync_try ::
  "('r, 'm, 'p) execution \<Rightarrow> ('r, 'm, 'p) app_event list \<times> js_error option" where
  "backend_sync_try x =
     (let reminders = reminders (store_at_start x);
          medications = medications (store_at_start x);
          begun = [Console ConsoleLog [Text ([CHR 0xF0, CHR 0x9F, CHR 0x94, CHR 0x84] @ '' Initializing backend sync service...'')], BackendInitialize]
      in case initialize_outcome x of
           Inl error \<Rightarrow> (begun, Some error)
         | Inr _ \<Rightarrow>
             let initialized = begun @ [Console ConsoleLog [Text ([CHR 0xE2, CHR 0x9C, CHR 0x85] @ '' Backend sync service initialized successfully'')]] in
             if length reminders > 0 \<or> length medications > 0 then
               let syncing = initialized @
                     [Console ConsoleLog [Text ([CHR 0xF0, CHR 0x9F, CHR 0x93, CHR 0xA4] @ '' Syncing existing data to backend...'')],
                      SyncUserDataToBackend reminders medications (userProfile (store_at_sync x))]
               in case sync_outcome x of
                    Inl error \<Rightarrow> (syncing, Some error)
                  | Inr syncSuccess \<Rightarrow>
                      if syncSuccess
                      then (syncing @ [Console ConsoleLog [Text ([CHR 0xE2, CHR 0x9C, CHR 0x85] @ '' Initial backend sync completed - iOS PWA notifications enabled'')]], None)
                      else (syncing @ [Console ConsoleWarn [Text ([CHR 0xE2, CHR 0x9A, CHR 0xA0, CHR 0xEF, CHR 0xB8, CHR 0x8F] @ '' Initial backend sync failed - using client-side only'')]], None)
             else (initialized, None))"

text \<open>Lines 54 to 77: the \<^verbatim>\<open>try\<close> with its \<^verbatim>\<open>catch\<close>.\<close>

definition backend_sync :: "('r, 'm, 'p) execution \<Rightarrow> ('r, 'm, 'p) app_event list" where
  "backend_sync x =
     (case backend_sync_try x of
        (done, None) \<Rightarrow> done
      | (done, Some error) \<Rightarrow>
          done @ [Console ConsoleError [Text ([CHR 0xE2, CHR 0x9D, CHR 0x8C] @ '' Backend sync initialization failed:''), Thrown error],
                  Console ConsoleLog [Text ([CHR 0xF0, CHR 0x9F, CHR 0x93, CHR 0xB1] @ '' Falling back to client-side notifications only'')]])"

text \<open>Lines 80 to 88.\<close>

definition reminder_migration :: "('r, 'm, 'p) execution \<Rightarrow> ('r, 'm, 'p) app_event list" where
  "reminder_migration x =
     (let reminders = reminders (store_at_start x);
          medications = medications (store_at_start x)
      in if length reminders > 0 \<and> length medications > 0 then
           [Console ConsoleLog [Text ([CHR 0xF0, CHR 0x9F, CHR 0x94, CHR 0x84] @ '' Starting iOS PWA reminder migration...'')],
            MigrateExistingReminders reminders medications]
           @ (case migrate_outcome x of
                Inr _ \<Rightarrow> [Console ConsoleLog [Text ([CHR 0xE2, CHR 0x9C, CHR 0x85] @ '' iOS PWA reminder migration completed'')]]
              | Inl error \<Rightarrow> [Console ConsoleError [Text ([CHR 0xE2, CHR 0x9D, CHR 0x8C] @ '' iOS PWA reminder migration failed:''), Thrown error]])
         else [])"

text \<open>The body of the last \<^verbatim>\<open>try\<close> (lines 94 to 105), with the error that leaves it, if any.\<close>

definition diagnostic_try ::
  "('r, 'm, 'p) execution \<Rightarrow> ('r, 'm, 'p) app_event list \<times> js_error option" where
  "diagnostic_try x =
     (case diagnose_outcome x of
        Inl error \<Rightarrow> ([DiagnoseIOSPWANotificationIssues], Some error)
      | Inr diagnostic \<Rightarrow>
          let diagnosed =
                [DiagnoseIOSPWANotificationIssues,
                 Console ConsoleLog [Text ([CHR 0xF0, CHR 0x9F, CHR 0x93, CHR 0x8A] @ '' iOS PWA Notification Diagnostic Results:''), DiagnosticResult diagnostic]]
          in if str_includes (coreIssue diagnostic) ''iOS Safari'' then
               let recovering = diagnosed @
                     [Console ConsoleLog [Text ([CHR 0xF0, CHR 0x9F, CHR 0x8D, CHR 0x8E] @ '' iOS PWA detected - implementing missed dose recovery system'')], ImplementMissedDoseRecovery]
               in case recovery_outcome x of
                    Inl error \<Rightarrow> (recovering, Some error)
                  | Inr _ \<Rightarrow> (recovering @ [CheckMissedNotifications], check_outcome x)
             else (diagnosed @ [CheckMissedNotifications], check_outcome x))"

text \<open>
  Lines 93 to 111: the \<^verbatim>\<open>try\<close> with its \<^verbatim>\<open>catch\<close>. An error thrown by the call inside the
  \<^verbatim>\<open>catch\<close> leaves the task.
\<close>

definition diagnostic_and_recovery ::
  "('r, 'm, 'p) execution \<Rightarrow> ('r, 'm, 'p) app_event list \<times> js_error option" where
  "diagnostic_and_recovery x =
     (case diagnostic_try x of
        (done, None) \<Rightarrow> (done, None)
      | (done, Some error) \<Rightarrow>
          (done @ [Console ConsoleError [Text ([CHR 0xE2, CHR 0x9D, CHR 0x8C] @ '' Failed to run iOS PWA diagnostic:''), Thrown error],
                   CheckMissedNotifications],
           fallback_check_outcome x))"

text \<open>
  Lines 43 to 112. The result is what the task did and the error its promise rejects with,
  if any. Line 48 is the expression \<^verbatim>\<open>consoleCapture;\<close>, which calls nothing, and the calls of
  \<^verbatim>\<open>console\<close> return.
\<close>

definition initializeApp ::
  "('r, 'm, 'p) execution \<Rightarrow> ('r, 'm, 'p) app_event list \<times> js_error option" where
  "initializeApp x =
     (let (checked, outcome) = diagnostic_and_recovery x
      in ([Console ConsoleLog [Text ''App loaded, initializing iOS PWA notification system...'']]
          @ backend_sync x
          @ reminder_migration x
          @ [Console ConsoleLog [Text ''Running iOS PWA notification diagnostic and recovery...'']]
          @ checked,
          outcome))"

text \<open>Lines 118 to 121.\<close>

definition handleFocus :: "('r, 'm, 'p) app_event list" where
  "handleFocus =
     [Console ConsoleLog [Text ''Window gained focus, checking for missed notifications''], CheckMissedNotifications]"

section \<open>The effect that schedules the task\<close>

text \<open>
  The effect of lines 42 to 129 uses four functions of the browser. The browser is a clock,
  the timers that are pending (identifier, time due, callback) and the listeners that are
  registered (event type, listener). A callback is named by the function it is.
\<close>

datatype timer_callback = InitializeAppCallback

datatype event_listener = HandleFocusListener

record host =
  clock :: nat
  next_timer_id :: nat
  timers :: "(nat \<times> nat \<times> timer_callback) list"
  listeners :: "(string \<times> event_listener) list"

definition setTimeout :: "timer_callback \<Rightarrow> nat \<Rightarrow> host \<Rightarrow> nat \<times> host" where
  "setTimeout callback delay h =
     (next_timer_id h,
      h\<lparr>next_timer_id := Suc (next_timer_id h),
        timers := timers h @ [(next_timer_id h, clock h + delay, callback)]\<rparr>)"

definition clearTimeout :: "nat \<Rightarrow> host \<Rightarrow> host" where
  "clearTimeout timer h = h\<lparr>timers := filter (\<lambda>(i, due, callback). i \<noteq> timer) (timers h)\<rparr>"

definition addEventListener :: "string \<Rightarrow> event_listener \<Rightarrow> host \<Rightarrow> host" where
  "addEventListener type listener h =
     (if (type, listener) \<in> set (listeners h) then h
      else h\<lparr>listeners := listeners h @ [(type, listener)]\<rparr>)"

definition removeEventListener :: "string \<Rightarrow> event_listener \<Rightarrow> host \<Rightarrow> host" where
  "removeEventListener type listener h =
     h\<lparr>listeners := removeAll (type, listener) (listeners h)\<rparr>"

text \<open>Lines 115 to 123; the result holds the timer that the teardown function refers to.\<close>

definition mount_effect :: "host \<Rightarrow> nat \<times> host" where
  "mount_effect h =
     (let (timer, h1) = setTimeout InitializeAppCallback 1500 h
      in (timer, addEventListener ''focus'' HandleFocusListener h1))"

text \<open>Lines 125 to 128: the teardown function.\<close>

definition teardown :: "nat \<Rightarrow> host \<Rightarrow> host" where
  "teardown timer h = removeEventListener ''focus'' HandleFocusListener (clearTimeout timer h)"

text \<open>
  The page: the browser, the teardown function of the mounted component (its timer), and
  everything the callbacks have done so far.
\<close>

record ('r, 'm, 'p) page =
  browser :: host
  mounted :: "nat option"
  activity :: "('r, 'm, 'p) app_event list"

definition mount :: "host \<Rightarrow> ('r, 'm, 'p) page" where
  "mount h = (let (timer, h') = mount_effect h
              in \<lparr>browser = h', mounted = Some timer, activity = []\<rparr>)"

text \<open>
  What can happen to the page: time passes, the event loop runs the first pending timer that
  is due (the execution says how the services answer the task), the window gains focus, the
  component unmounts. A callback that starts is recorded with all it does; the order in
  which the lines of a started task and those of a focus listener reach the console is not
  part of this model.
\<close>

datatype ('r, 'm, 'p) happening =
    Elapse nat
  | RunDueTimer "('r, 'm, 'p) execution"
  | WindowFocus
  | Unmount

definition run_callback ::
  "timer_callback \<Rightarrow> ('r, 'm, 'p) execution \<Rightarrow> ('r, 'm, 'p) app_event list" where
  "run_callback callback x = (case callback of InitializeAppCallback \<Rightarrow> fst (initializeApp x))"

definition run_listener :: "event_listener \<Rightarrow> ('r, 'm, 'p) app_event list" where
  "run_listener listener = (case listener of HandleFocusListener \<Rightarrow> handleFocus)"

fun happen :: "('r, 'm, 'p) happening \<Rightarrow> ('r, 'm, 'p) page \<Rightarrow> ('r, 'm, 'p) page" where
  "happen (Elapse d) pg = pg\<lparr>browser := (browser pg)\<lparr>clock := clock (browser pg) + d\<rparr>\<rparr>"
| "happen (RunDueTimer x) pg =
     (case filter (\<lambda>(i, due, callback). due \<le> clock (browser pg)) (timers (browser pg)) of
        [] \<Rightarrow> pg
      | (i, due, callback) # _ \<Rightarrow>
          pg\<lparr>browser := clearTimeout i (browser pg),
             activity := activity pg @ run_callback callback x\<rparr>)"
| "happen WindowFocus pg =
     pg\<lparr>activity := activity pg @
          concat (map (\<lambda>(type, listener). run_listener listener)
                      (filter (\<lambda>(type, listener). type = ''focus'') (listeners (browser pg))))\<rparr>"
| "happen Unmount pg =
     (case mounted pg of
        None \<Rightarrow> pg
      | Some timer \<Rightarrow> pg\<lparr>browser := teardown timer (browser pg), mounted := None\<rparr>)"

text \<open>The time that passes during a list of happenings.\<close>

fun elapsed :: "('r, 'm, 'p) happening list \<Rightarrow> nat" where
  "elapsed [] = 0"
| "elapsed (Elapse d # hs) = d + elapsed hs"
| "elapsed (_ # hs) = elapsed hs"

definition focus_count :: "('r, 'm, 'p) happening list \<Rightarrow> nat" where
  "focus_count hs = length (filter (\<lambda>h. h = WindowFocus) hs)"

section \<open>Inputs for the examples\<close>

definition example_env :: env where
  "example_env =
     [''VITE_FIREBASE_API_KEY'' \<mapsto> ''AIzaSyExample'',
      ''VITE_FIREBASE_AUTH_DOMAIN'' \<mapsto> ''medtrack.firebaseapp.com'',
      ''VITE_FIREBASE_PROJECT_ID'' \<mapsto> ''medtrack'',
      ''VITE_FIREBASE_STORAGE_BUCKET'' \<mapsto> ''medtrack.appspot.com'',
      ''VITE_FIREBASE_MESSAGING_SENDER_ID'' \<mapsto> ''1234567890'',
      ''VITE_FIREBASE_APP_ID'' \<mapsto> ''1:1234567890:web:abcdef'']"

definition configured_world :: js_world where
  "configured_world = \<lparr>process_env = Some example_env, import_meta_env = Map.empty\<rparr>"

definition unconfigured_world :: js_world where
  "unconfigured_world = \<lparr>process_env = None, import_meta_env = Map.empty\<rparr>"

definition payload_with_icon :: payload where
  "payload_with_icon =
     \<lparr>p_notification = Some \<lparr>n_title = Some ''Aspirin'', n_body = None, n_icon = Some ''/custom.png''\<rparr>,
      p_data = None\<rparr>"

definition payload_with_id :: payload where
  "payload_with_id = \<lparr>p_notification = None, p_data = Some [''medicationId'' \<mapsto> ''42'']\<rparr>"

definition payload_with_empty_id :: payload where
  "payload_with_empty_id = \<lparr>p_notification = None, p_data = Some [''medicationId'' \<mapsto> []]\<rparr>"

definition payload_without_id :: payload where
  "payload_without_id = \<lparr>p_notification = None, p_data = Some [''kind'' \<mapsto> ''dose'']\<rparr>"

definition shows_at_once :: "string \<Rightarrow> notification_options \<Rightarrow> js_error option" where
  "shows_at_once title options = None"

definition rejected_start :: "(string, string, string) execution" where
  "rejected_start =
     \<lparr>store_at_start = \<lparr>reminders = [''r1''], medications = [''m1''], userProfile = None\<rparr>,
      store_at_sync = \<lparr>reminders = [''r1''], medications = [''m1''], userProfile = None\<rparr>,
      initialize_outcome = Inl ''offline'',
      sync_outcome = Inr True,
      migrate_outcome = Inr (),
      diagnose_outcome = Inr \<lparr>coreIssue = ''iOS Safari PWA suppresses background notifications''\<rparr>,
      recovery_outcome = Inr (),
      check_outcome = None,
      fallback_check_outcome = None\<rparr>"

definition fresh_host :: host where
  "fresh_host = \<lparr>clock = 0, next_timer_id = 1, timers = [], listeners = []\<rparr>"

section \<open>Invariants of the page\<close>

text \<open>The page between mounting and the first of timer and teardown.\<close>

definition waiting :: "nat \<Rightarrow> nat \<Rightarrow> ('r, 'm, 'p) page \<Rightarrow> bool" where
  "waiting timer due pg \<longleftrightarrow>
     mounted pg = Some timer
     \<and> timers (browser pg) = [(timer, due, InitializeAppCallback)]
     \<and> listeners (browser pg) = [(''focus'', HandleFocusListener)]"

text \<open>The page after the teardown.\<close>

definition idle :: "('r, 'm, 'p) page \<Rightarrow> bool" where
  "idle pg \<longleftrightarrow> mounted pg = None \<and> timers (browser pg) = [] \<and> listeners (browser pg) = []"


section \<open>Lines joined by line breaks\<close>

lemma join_lines_append:
  "xs \<noteq> [] \<Longrightarrow> ys \<noteq> [] \<Longrightarrow> join_lines (xs @ ys) = join_lines xs @ newline # join_lines ys"
  by (induction xs rule: join_lines.induct) (auto simp: neq_Nil_conv)

lemma join_lines_nested_head:
  assumes "m \<noteq> []"
  shows "join_lines (join_lines m # ys) = join_lines (m @ ys)"
proof (cases ys)
  case Nil
  then show ?thesis by simp
next
  case (Cons y ys')
  then have "join_lines (m @ ys) = join_lines m @ newline # join_lines ys"
    using assms by (simp add: join_lines_append)
  then show ?thesis using Cons by simp
qed

lemma join_lines_flatten:
  assumes "m \<noteq> []"
  shows "join_lines (xs @ [join_lines m] @ ys) = join_lines (xs @ m @ ys)"
proof (cases "xs = []")
  case True
  then show ?thesis using join_lines_nested_head [OF assms] by simp
next
  case False
  have "join_lines (xs @ (join_lines m # ys)) = join_lines xs @ newline # join_lines (join_lines m # ys)"
    using False by (simp add: join_lines_append)
  also have "\<dots> = join_lines xs @ newline # join_lines (m @ ys)"
    by (simp only: join_lines_nested_head [OF assms])
  also have "\<dots> = join_lines (xs @ (m @ ys))"
    using False assms by (simp add: join_lines_append)
  finally show ?thesis by simp
qed

lemma join_lines_inside:
  assumes "xs \<noteq> []"
  shows "\<exists>p s. join_lines (ps @ xs @ ss) = p @ join_lines xs @ s"
proof -
  have "\<exists>s. join_lines (xs @ ss) = join_lines xs @ s"
    using assms by (cases "ss = []") (simp_all add: join_lines_append)
  then obtain s where s: "join_lines (xs @ ss) = join_lines xs @ s" ..
  show ?thesis
  proof (cases "ps = []")
    case True
    with s have "join_lines (ps @ xs @ ss) = [] @ join_lines xs @ s" by simp
    then show ?thesis by blast
  next
    case False
    with assms have "join_lines (ps @ xs @ ss) = join_lines ps @ newline # join_lines (xs @ ss)"
      by (simp add: join_lines_append)
    with s have "join_lines (ps @ xs @ ss) = (join_lines ps @ [newline]) @ join_lines xs @ s"
      by simp
    then show ?thesis by blast
  qed
qed

lemma sublist_join_lines:
  "sublist (join_lines xs) (join_lines (ps @ xs @ ss))"
proof (cases "xs = []")
  case True
  then show ?thesis by simp
next
  case False
  then show ?thesis
    using join_lines_inside [of xs ps ss] by (auto simp: sublist_def)
qed

lemma suffix_join_lines:
  "suffix (join_lines xs) (join_lines (ps @ xs))"
proof (cases "ps = [] \<or> xs = []")
  case True
  then show ?thesis by auto
next
  case False
  then have "join_lines (ps @ xs) = (join_lines ps @ [newline]) @ join_lines xs"
    by (simp add: join_lines_append)
  then show ?thesis unfolding suffix_def by blast
qed

lemma content_lines:
  "generateFirebaseServiceWorkerContent w =
     join_lines (sw_preamble @
       (if truthy (hasValidConfig (getFirebaseServiceWorkerConfig w))
        then sw_enabled_config (getFirebaseServiceWorkerConfig w) else sw_disabled_config) @ sw_body)"
proof -
  have "sw_enabled_config c \<noteq> []" for c by (simp add: sw_enabled_config_def)
  moreover have "sw_disabled_config \<noteq> []" by (simp add: sw_disabled_config_def)
  ultimately show ?thesis
    unfolding generateFirebaseServiceWorkerContent_def Let_def
    by (simp add: join_lines_flatten del: append.simps join_lines.simps)
qed

section \<open>The generated script\<close>

lemma disabled_text_has_no_import:
  "\<not> sublist ''importScripts'' (join_lines (sw_preamble @ sw_disabled_config @ sw_body))"
  unfolding sw_preamble_def sw_disabled_config_def sw_body_def newline_def
  by (simp add: sublist_code(3))

text \<open>
  C1. Whatever the six variables hold, the validity test of
  generateFirebaseServiceWorkerContent succeeds exactly when the API key, the project id and
  the messaging sender id are all non-empty, each of them being the variable's value or the
  empty string when the variable is not set. The auth domain, the storage bucket and the app
  id have no part in it: replacing them leaves the test as it was.
\<close>

theorem validity_iff_required_values:
  "(truthy (hasValidConfig (getFirebaseServiceWorkerConfig w)) \<longleftrightarrow>
      apiKey (getFirebaseServiceWorkerConfig w) \<noteq> []
      \<and> projectId (getFirebaseServiceWorkerConfig w) \<noteq> []
      \<and> messagingSenderId (getFirebaseServiceWorkerConfig w) \<noteq> [])
   \<and> apiKey (getFirebaseServiceWorkerConfig w) =
       (case selected_env w ''VITE_FIREBASE_API_KEY'' of None \<Rightarrow> [] | Some s \<Rightarrow> s)
   \<and> projectId (getFirebaseServiceWorkerConfig w) =
       (case selected_env w ''VITE_FIREBASE_PROJECT_ID'' of None \<Rightarrow> [] | Some s \<Rightarrow> s)
   \<and> messagingSenderId (getFirebaseServiceWorkerConfig w) =
       (case selected_env w ''VITE_FIREBASE_MESSAGING_SENDER_ID'' of None \<Rightarrow> [] | Some s \<Rightarrow> s)
   \<and> truthy (hasValidConfig (c\<lparr>authDomain := a, storageBucket := b, appId := d\<rparr>)) =
       truthy (hasValidConfig c)"
proof -
  have "or_else v [] = (case v of None \<Rightarrow> [] | Some s \<Rightarrow> s)" for v
    by (simp add: or_else_def truthy_def split: option.split)
  then show ?thesis
    by (simp add: hasValidConfig_def and_also_def truthy_def getFirebaseServiceWorkerConfig_def
          Let_def)
qed

text \<open>
  C2. The output is the preamble, one of two texts, and the rest of the script. With a valid
  configuration it contains the two \<^verbatim>\<open>importScripts\<close> statements and the object literal
  with the six values between double quotes. With an invalid configuration it contains the
  disabled stand-in (the comment, the warning and the \<^verbatim>\<open>null\<close> configuration) and no
  occurrence of \<^verbatim>\<open>importScripts\<close> at all.
\<close>

theorem output_has_two_branches:
  \<open>(truthy (hasValidConfig (getFirebaseServiceWorkerConfig w)) \<longrightarrow>
      sublist (join_lines
         [''importScripts('https://www.gstatic.com/firebasejs/10.7.1/firebase-app-compat.js');'',
          ''importScripts('https://www.gstatic.com/firebasejs/10.7.1/firebase-messaging-compat.js');''])
        (generateFirebaseServiceWorkerContent w)
      \<and> sublist (join_lines
         [''const firebaseConfig = {'',
          ''  apiKey: "'' @ apiKey (getFirebaseServiceWorkerConfig w) @ ''",'',
          ''  authDomain: "'' @ authDomain (getFirebaseServiceWorkerConfig w) @ ''",'',
          ''  projectId: "'' @ projectId (getFirebaseServiceWorkerConfig w) @ ''",'',
          ''  storageBucket: "'' @ storageBucket (getFirebaseServiceWorkerConfig w) @ ''",'',
          ''  messagingSenderId: "'' @ messagingSenderId (getFirebaseServiceWorkerConfig w) @ ''",'',
          ''  appId: "'' @ appId (getFirebaseServiceWorkerConfig w) @ ''"'',
          ''};''])
        (generateFirebaseServiceWorkerContent w))
   \<and> (\<not> truthy (hasValidConfig (getFirebaseServiceWorkerConfig w)) \<longrightarrow>
      sublist (join_lines
         [''// Firebase configuration not available - FCM disabled in development'',
          ''console.warn('' @ [CHR 0x27, CHR 0xF0, CHR 0x9F, CHR 0x9A, CHR 0xA7] @ '' Firebase configuration not available - FCM disabled');'',
          ''const firebaseConfig = null;''])
        (generateFirebaseServiceWorkerContent w)
      \<and> \<not> sublist ''importScripts'' (generateFirebaseServiceWorkerContent w))\<close>
proof (cases "truthy (hasValidConfig (getFirebaseServiceWorkerConfig w))")
  case True
  let ?c = "getFirebaseServiceWorkerConfig w"
  let ?en = "sw_enabled_config ?c"
  have out: "generateFirebaseServiceWorkerContent w = join_lines (sw_preamble @ ?en @ sw_body)"
    using True by (simp add: content_lines)
  have "sw_preamble @ ?en @ sw_body = (sw_preamble @ take 2 ?en) @ take 2 (drop 2 ?en) @ (drop 4 ?en @ sw_body)"
    by (simp add: sw_enabled_config_def)
  then have a: "sublist (join_lines (take 2 (drop 2 ?en))) (generateFirebaseServiceWorkerContent w)"
    unfolding out by (simp only: sublist_join_lines)
  have "sw_preamble @ ?en @ sw_body = (sw_preamble @ take 6 ?en) @ drop 6 ?en @ sw_body"
    by (simp add: sw_enabled_config_def)
  then have b: "sublist (join_lines (drop 6 ?en)) (generateFirebaseServiceWorkerContent w)"
    unfolding out by (simp only: sublist_join_lines)
  from a b True show ?thesis
    by (simp add: sw_enabled_config_def)
next
  case False
  have out: "generateFirebaseServiceWorkerContent w = join_lines (sw_preamble @ sw_disabled_config @ sw_body)"
    using False by (simp add: content_lines)
  have "sw_preamble @ sw_disabled_config @ sw_body = (sw_preamble @ take 1 sw_disabled_config) @ drop 1 sw_disabled_config @ sw_body"
    by (simp add: sw_disabled_config_def)
  then have a: "sublist (join_lines (drop 1 sw_disabled_config)) (generateFirebaseServiceWorkerContent w)"
    unfolding out by (simp only: sublist_join_lines)
  have b: "\<not> sublist ''importScripts'' (generateFirebaseServiceWorkerContent w)"
    unfolding out by (rule disabled_text_has_no_import)
  from a b False show ?thesis
    by (simp add: sw_disabled_config_def)
qed

theorem output_has_two_branches_witness:
  "truthy (hasValidConfig (getFirebaseServiceWorkerConfig configured_world))
   \<and> sublist (join_lines
         [''importScripts('https://www.gstatic.com/firebasejs/10.7.1/firebase-app-compat.js');'',
          ''importScripts('https://www.gstatic.com/firebasejs/10.7.1/firebase-messaging-compat.js');''])
        (generateFirebaseServiceWorkerContent configured_world)
   \<and> \<not> truthy (hasValidConfig (getFirebaseServiceWorkerConfig unconfigured_world))
   \<and> \<not> sublist ''importScripts'' (generateFirebaseServiceWorkerContent unconfigured_world)"
proof -
  have valid: "truthy (hasValidConfig (getFirebaseServiceWorkerConfig configured_world))"
    by (simp add: configured_world_def example_env_def selected_env_def
          getFirebaseServiceWorkerConfig_def hasValidConfig_def and_also_def or_else_def
          truthy_def)
  have invalid: "\<not> truthy (hasValidConfig (getFirebaseServiceWorkerConfig unconfigured_world))"
    by (simp add: unconfigured_world_def selected_env_def getFirebaseServiceWorkerConfig_def
          hasValidConfig_def and_also_def or_else_def truthy_def)
  from valid invalid
    output_has_two_branches [of configured_world]
    output_has_two_branches [of unconfigured_world]
  show ?thesis by blast
qed

text \<open>
  C10. For every environment, whether the configuration is valid or not, the output ends with
  the block that gives \<^verbatim>\<open>messaging\<close> a stand-in object when it is still null and then
  assigns it to \<^verbatim>\<open>self.firebaseMessaging\<close>.
\<close>

theorem fallback_block_in_every_output:
  "suffix (join_lines
       [''// Always create a fallback messaging object to prevent errors'',
        ''if (!messaging) {'',
        ''  messaging = {'',
        ''    onBackgroundMessage: () => {'',
        ''      console.warn('Firebase messaging not available - background push notifications disabled');'',
        ''    }'',
        ''  };'',
        ''}'',
        '''',
        ''// Export messaging for potential use by main service worker'',
        ''self.firebaseMessaging = messaging;''])
     (generateFirebaseServiceWorkerContent w)"
proof -
  let ?c = "getFirebaseServiceWorkerConfig w"
  let ?mid = "if truthy (hasValidConfig ?c) then sw_enabled_config ?c else sw_disabled_config"
  have "generateFirebaseServiceWorkerContent w = join_lines ((sw_preamble @ ?mid @ take 65 sw_body) @ drop 65 sw_body)"
    by (simp add: content_lines)
  moreover have "drop 65 sw_body = [''// Always create a fallback messaging object to prevent errors'',
        ''if (!messaging) {'',
        ''  messaging = {'',
        ''    onBackgroundMessage: () => {'',
        ''      console.warn('Firebase messaging not available - background push notifications disabled');'',
        ''    }'',
        ''  };'',
        ''}'',
        '''',
        ''// Export messaging for potential use by main service worker'',
        ''self.firebaseMessaging = messaging;'']"
    by (simp add: sw_body_def)
  ultimately show ?thesis
    using suffix_join_lines [of "drop 65 sw_body" "sw_preamble @ ?mid @ take 65 sw_body"]
    by simp
qed

section \<open>The background-message handler\<close>

text \<open>
  C5, as the specification states it, fails: the icon of the displayed notification is the
  icon of the message when the message has one. Here a message with the icon
  \<^verbatim>\<open>/custom.png\<close> is displayed with that icon.
\<close>

theorem payload_icon_is_displayed_counterexample:
  "displayed (fst (onBackgroundMessage shows_at_once 0 payload_with_icon))
     = [(''Aspirin'', notificationOptions 0 payload_with_icon)]
   \<and> icon (notificationOptions 0 payload_with_icon) = ''/custom.png''
   \<and> icon (notificationOptions 0 payload_with_icon) \<noteq> ''/pill-icon.svg''"
  by (simp add: onBackgroundMessage_def shows_at_once_def notificationTitle_def
        notificationOptions_def payload_with_icon_def or_else_def truthy_def)

text \<open>
  C5, amended. The handler displays the notification it builds and, when that call throws,
  the fallback notification. The badge of both is \<^verbatim>\<open>/pill-icon.svg\<close>, whatever the message
  holds. The icon of the first is the icon of the message when it has a non-empty one and
  \<^verbatim>\<open>/pill-icon.svg\<close> otherwise; the icon of the fallback notification is \<^verbatim>\<open>/pill-icon.svg\<close>.
\<close>

theorem badge_fixed_icon_from_message:
  "displayed (fst (onBackgroundMessage showNotification now p))
     = (notificationTitle p, notificationOptions now p)
       # (case showNotification (notificationTitle p) (notificationOptions now p) of
            None \<Rightarrow> []
          | Some error \<Rightarrow> [(''MedTrack Reminder'', fallbackOptions)])
   \<and> badge (notificationOptions now p) = ''/pill-icon.svg''
   \<and> (Option.bind (p_notification p) n_icon = Some i \<and> i \<noteq> [] \<longrightarrow>
        icon (notificationOptions now p) = i)
   \<and> (Option.bind (p_notification p) n_icon = None
        \<or> Option.bind (p_notification p) n_icon = Some [] \<longrightarrow>
        icon (notificationOptions now p) = ''/pill-icon.svg'')
   \<and> badge fallbackOptions = ''/pill-icon.svg''
   \<and> icon fallbackOptions = ''/pill-icon.svg''"
proof -
  have "displayed (fst (onBackgroundMessage showNotification now p))
     = (notificationTitle p, notificationOptions now p)
       # (case showNotification (notificationTitle p) (notificationOptions now p) of
            None \<Rightarrow> []
          | Some error \<Rightarrow> [(''MedTrack Reminder'', fallbackOptions)])"
    by (simp add: onBackgroundMessage_def Let_def split: option.split)
  then show ?thesis
    by (auto simp: notificationOptions_def fallbackOptions_def or_else_def truthy_def)
qed

theorem badge_fixed_icon_from_message_witness:
  "Option.bind (p_notification payload_with_icon) n_icon = Some ''/custom.png''
   \<and> icon (notificationOptions 0 payload_with_icon) = ''/custom.png''
   \<and> badge (notificationOptions 0 payload_with_icon) = ''/pill-icon.svg''
   \<and> Option.bind (p_notification payload_with_id) n_icon = None
   \<and> icon (notificationOptions 0 payload_with_id) = ''/pill-icon.svg''"
proof -
  have a: "Option.bind (p_notification payload_with_icon) n_icon = Some ''/custom.png''"
    by (simp add: payload_with_icon_def)
  have b: "Option.bind (p_notification payload_with_id) n_icon = None"
    by (simp add: payload_with_id_def)
  from a badge_fixed_icon_from_message [of shows_at_once 0 payload_with_icon "''/custom.png''"]
  have "icon (notificationOptions 0 payload_with_icon) = ''/custom.png''
    \<and> badge (notificationOptions 0 payload_with_icon) = ''/pill-icon.svg''"
    by simp
  moreover from b badge_fixed_icon_from_message [of shows_at_once 0 payload_with_id]
  have "icon (notificationOptions 0 payload_with_id) = ''/pill-icon.svg''"
    by simp
  ultimately show ?thesis using a b by simp
qed

text \<open>
  C6, as the specification states it, fails: a message whose data holds the field
  \<^verbatim>\<open>medicationId\<close> with the empty string has the field, and its notification carries the
  generic tag, not \<^verbatim>\<open>medication_\<close> followed by the identifier.
\<close>

theorem empty_id_gets_generic_tag_counterexample:
  "medicationId_of payload_with_empty_id = Some []
   \<and> tag (notificationOptions 0 payload_with_empty_id) = Some ''medtrack-fcm''
   \<and> tag (notificationOptions 0 payload_with_empty_id) \<noteq> Some (''medication_'' @ [])"
  by (simp add: notificationOptions_def medicationId_of_def payload_with_empty_id_def truthy_def)

text \<open>
  C6, amended. The notification the handler builds has the tag \<^verbatim>\<open>medication_\<close> followed by
  the identifier when the data of the message holds a non-empty \<^verbatim>\<open>medicationId\<close>, and the
  tag \<^verbatim>\<open>medtrack-fcm\<close> when the field is absent or empty. The fallback notification has no
  tag.
\<close>

theorem tag_from_medication_id:
  "(medicationId_of p = Some m \<and> m \<noteq> [] \<longrightarrow>
      tag (notificationOptions now p) = Some (''medication_'' @ m))
   \<and> (medicationId_of p = None \<or> medicationId_of p = Some [] \<longrightarrow>
      tag (notificationOptions now p) = Some ''medtrack-fcm'')
   \<and> tag fallbackOptions = None"
  by (auto simp: notificationOptions_def fallbackOptions_def truthy_def)

theorem tag_from_medication_id_witness:
  "medicationId_of payload_with_id = Some ''42'' \<and> ''42'' \<noteq> []
   \<and> tag (notificationOptions 0 payload_with_id) = Some ''medication_42''
   \<and> medicationId_of payload_without_id = None
   \<and> tag (notificationOptions 0 payload_without_id) = Some ''medtrack-fcm''"
proof -
  have a: "medicationId_of payload_with_id = Some ''42''"
    by (simp add: medicationId_of_def payload_with_id_def)
  have b: "medicationId_of payload_without_id = None"
    by (simp add: medicationId_of_def payload_without_id_def)
  from a tag_from_medication_id [of payload_with_id "''42''" 0]
  have "tag (notificationOptions 0 payload_with_id) = Some ''medication_42''" by simp
  moreover from b tag_from_medication_id [of payload_without_id _ 0]
  have "tag (notificationOptions 0 payload_without_id) = Some ''medtrack-fcm''" by simp
  ultimately show ?thesis using a b by simp
qed

section \<open>The bootstrap task\<close>

lemma initializeApp_activity:
  "fst (initializeApp x) =
     Console ConsoleLog [Text ''App loaded, initializing iOS PWA notification system...'']
     # backend_sync x
     @ reminder_migration x
     @ Console ConsoleLog [Text ''Running iOS PWA notification diagnostic and recovery...'']
     # fst (diagnostic_and_recovery x)"
  by (simp add: initializeApp_def split: prod.split)

lemma backend_sync_rejected:
  "initialize_outcome x = Inl error \<Longrightarrow>
   backend_sync x =
     [Console ConsoleLog [Text ([CHR 0xF0, CHR 0x9F, CHR 0x94, CHR 0x84] @ '' Initializing backend sync service...'')],
      BackendInitialize,
      Console ConsoleError [Text ([CHR 0xE2, CHR 0x9D, CHR 0x8C] @ '' Backend sync initialization failed:''), Thrown error],
      Console ConsoleLog [Text ([CHR 0xF0, CHR 0x9F, CHR 0x93, CHR 0xB1] @ '' Falling back to client-side notifications only'')]]"
  by (simp add: backend_sync_def backend_sync_try_def)

lemma backend_sync_events:
  "e \<in> set (backend_sync x) \<Longrightarrow>
     (\<exists>l a. e = Console l a) \<or> e = BackendInitialize
     \<or> (\<exists>rs ms pr. e = SyncUserDataToBackend rs ms pr)"
  by (auto simp: backend_sync_def backend_sync_try_def Let_def
      split: prod.splits option.splits sum.splits if_splits)

lemma sync_invoked_after_initialize:
  assumes "initialize_outcome x = Inr u"
    and "reminders (store_at_start x) \<noteq> [] \<or> medications (store_at_start x) \<noteq> []"
  shows "SyncUserDataToBackend (reminders (store_at_start x)) (medications (store_at_start x))
           (userProfile (store_at_sync x)) \<in> set (backend_sync x)"
  using assms
  by (auto simp: backend_sync_def backend_sync_try_def Let_def
      split: prod.splits option.splits sum.splits if_splits)

lemma migration_invoked_iff:
  "MigrateExistingReminders rs ms \<in> set (reminder_migration x) \<longleftrightarrow>
     reminders (store_at_start x) \<noteq> [] \<and> medications (store_at_start x) \<noteq> []
     \<and> rs = reminders (store_at_start x) \<and> ms = medications (store_at_start x)"
  by (auto simp: reminder_migration_def Let_def split: sum.splits)

lemma migration_only_migrates:
  "e \<in> set (reminder_migration x) \<Longrightarrow>
     (\<exists>l a. e = Console l a) \<or> (\<exists>rs ms. e = MigrateExistingReminders rs ms)"
  by (auto simp: reminder_migration_def Let_def split: sum.splits if_splits)

lemma diagnostic_try_events:
  "e \<in> set (fst (diagnostic_try x)) \<Longrightarrow>
     (\<exists>l a. e = Console l a) \<or> e = DiagnoseIOSPWANotificationIssues
     \<or> e = ImplementMissedDoseRecovery \<or> e = CheckMissedNotifications"
  by (auto simp: diagnostic_try_def Let_def split: sum.splits if_splits)

lemma diagnostic_events:
  "e \<in> set (fst (diagnostic_and_recovery x)) \<Longrightarrow>
     (\<exists>l a. e = Console l a) \<or> e = DiagnoseIOSPWANotificationIssues
     \<or> e = ImplementMissedDoseRecovery \<or> e = CheckMissedNotifications"
  using diagnostic_try_events [of e x]
  by (auto simp: diagnostic_and_recovery_def split: prod.splits option.splits)

lemma diagnose_invoked:
  "DiagnoseIOSPWANotificationIssues \<in> set (fst (diagnostic_and_recovery x))"
  by (auto simp: diagnostic_and_recovery_def diagnostic_try_def Let_def
      split: prod.splits option.splits sum.splits if_splits)

lemma check_invoked:
  "CheckMissedNotifications \<in> set (fst (diagnostic_and_recovery x))"
  by (auto simp: diagnostic_and_recovery_def diagnostic_try_def Let_def
      split: prod.splits option.splits sum.splits if_splits)

lemma no_check_before_diagnostic:
  "CheckMissedNotifications \<notin> set (backend_sync x)"
  "CheckMissedNotifications \<notin> set (reminder_migration x)"
  using backend_sync_events [of CheckMissedNotifications x]
    migration_only_migrates [of CheckMissedNotifications x]
  by auto

lemma no_recovery_before_diagnostic:
  "ImplementMissedDoseRecovery \<notin> set (backend_sync x)"
  "ImplementMissedDoseRecovery \<notin> set (reminder_migration x)"
  using backend_sync_events [of ImplementMissedDoseRecovery x]
    migration_only_migrates [of ImplementMissedDoseRecovery x]
  by auto

lemma recovery_invoked_iff:
  "ImplementMissedDoseRecovery \<in> set (fst (diagnostic_and_recovery x)) \<longleftrightarrow>
     (\<exists>d. diagnose_outcome x = Inr d \<and> str_includes (coreIssue d) ''iOS Safari'')"
  by (auto simp: diagnostic_and_recovery_def diagnostic_try_def Let_def
      split: prod.splits option.splits sum.splits if_splits)

lemma diagnostic_completes:
  assumes "diagnose_outcome x = Inr d"
    and "str_includes (coreIssue d) ''iOS Safari'' \<longrightarrow> recovery_outcome x = Inr ()"
  shows "fst (diagnostic_and_recovery x) =
     [DiagnoseIOSPWANotificationIssues,
      Console ConsoleLog [Text ([CHR 0xF0, CHR 0x9F, CHR 0x93, CHR 0x8A] @ '' iOS PWA Notification Diagnostic Results:''), DiagnosticResult d]]
     @ (if str_includes (coreIssue d) ''iOS Safari''
        then [Console ConsoleLog [Text ([CHR 0xF0, CHR 0x9F, CHR 0x8D, CHR 0x8E] @ '' iOS PWA detected - implementing missed dose recovery system'')], ImplementMissedDoseRecovery]
        else [])
     @ [CheckMissedNotifications]
     @ (case check_outcome x of
          None \<Rightarrow> []
        | Some error \<Rightarrow>
            [Console ConsoleError [Text ([CHR 0xE2, CHR 0x9D, CHR 0x8C] @ '' Failed to run iOS PWA diagnostic:''), Thrown error],
             CheckMissedNotifications])"
  using assms
  by (simp add: diagnostic_and_recovery_def diagnostic_try_def Let_def
      split: option.splits)

lemma diagnostic_rejected:
  assumes "diagnose_outcome x = Inl error"
  shows "fst (diagnostic_and_recovery x) =
     [DiagnoseIOSPWANotificationIssues,
      Console ConsoleError [Text ([CHR 0xE2, CHR 0x9D, CHR 0x8C] @ '' Failed to run iOS PWA diagnostic:''), Thrown error],
      CheckMissedNotifications]"
  using assms by (simp add: diagnostic_and_recovery_def diagnostic_try_def)

lemma recovery_rejected:
  assumes "diagnose_outcome x = Inr d"
    and "str_includes (coreIssue d) ''iOS Safari''"
    and "recovery_outcome x = Inl error"
  shows "fst (diagnostic_and_recovery x) =
     [DiagnoseIOSPWANotificationIssues,
      Console ConsoleLog [Text ([CHR 0xF0, CHR 0x9F, CHR 0x93, CHR 0x8A] @ '' iOS PWA Notification Diagnostic Results:''), DiagnosticResult d],
      Console ConsoleLog [Text ([CHR 0xF0, CHR 0x9F, CHR 0x8D, CHR 0x8E] @ '' iOS PWA detected - implementing missed dose recovery system'')],
      ImplementMissedDoseRecovery,
      Console ConsoleError [Text ([CHR 0xE2, CHR 0x9D, CHR 0x8C] @ '' Failed to run iOS PWA diagnostic:''), Thrown error],
      CheckMissedNotifications]"
  using assms by (simp add: diagnostic_and_recovery_def diagnostic_try_def Let_def)

lemma check_count_in_task:
  "count_list (fst (initializeApp x)) CheckMissedNotifications =
     count_list (fst (diagnostic_and_recovery x)) CheckMissedNotifications"
  using no_check_before_diagnostic [of x]
  by (simp add: initializeApp_activity count_list_0_iff)

lemma check_count:
  "count_list (fst (diagnostic_and_recovery x)) CheckMissedNotifications =
     (if (\<exists>d. diagnose_outcome x = Inr d
              \<and> (str_includes (coreIssue d) ''iOS Safari'' \<longrightarrow> recovery_outcome x = Inr ()))
         \<and> check_outcome x \<noteq> None
      then 2 else 1)"
proof (cases "diagnose_outcome x")
  case (Inl error)
  then show ?thesis by (simp add: diagnostic_rejected)
next
  case (Inr d)
  show ?thesis
  proof (cases "str_includes (coreIssue d) ''iOS Safari'' \<longrightarrow> recovery_outcome x = Inr ()")
    case True
    with Inr show ?thesis
      by (auto simp: diagnostic_completes split: option.splits)
  next
    case False
    then obtain error where "recovery_outcome x = Inl error"
      by (cases "recovery_outcome x") auto
    with Inr False show ?thesis by (simp add: recovery_rejected)
  qed
qed

lemma diagnostic_is_last:
  "suffix (fst (diagnostic_and_recovery x)) (fst (initializeApp x))"
proof -
  have "fst (initializeApp x) =
      (Console ConsoleLog [Text ''App loaded, initializing iOS PWA notification system...'']
       # backend_sync x @ reminder_migration x
       @ [Console ConsoleLog [Text ''Running iOS PWA notification diagnostic and recovery...'']])
      @ fst (diagnostic_and_recovery x)"
    by (simp add: initializeApp_activity)
  then show ?thesis by (rule suffixI)
qed

section \<open>The page\<close>

lemma mount_page:
  "mount h =
     \<lparr>browser = addEventListener ''focus'' HandleFocusListener
        (h\<lparr>next_timer_id := Suc (next_timer_id h),
           timers := timers h @ [(next_timer_id h, clock h + 1500, InitializeAppCallback)]\<rparr>),
      mounted = Some (next_timer_id h),
      activity = []\<rparr>"
  by (simp add: mount_def mount_effect_def setTimeout_def)

lemma mount_waiting:
  "timers h = [] \<Longrightarrow> listeners h = [] \<Longrightarrow> waiting (next_timer_id h) (clock h + 1500) (mount h)"
  by (simp add: waiting_def mount_page addEventListener_def)

lemma waiting_step:
  assumes "waiting timer due pg" and "hp \<noteq> Unmount"
    and "clock (browser pg) + elapsed [hp] < due"
  shows "waiting timer due (happen hp pg)
    \<and> clock (browser (happen hp pg)) = clock (browser pg) + elapsed [hp]
    \<and> activity (happen hp pg) = activity pg @ (if hp = WindowFocus then handleFocus else [])"
  using assms
  by (cases hp) (auto simp: waiting_def run_listener_def)

lemma waiting_run:
  assumes "waiting timer due pg" and "Unmount \<notin> set hs"
    and "clock (browser pg) + elapsed hs < due"
  shows "waiting timer due (fold happen hs pg)
    \<and> activity (fold happen hs pg) = activity pg @ concat (replicate (focus_count hs) handleFocus)"
  using assms
proof (induction hs arbitrary: pg)
  case Nil
  then show ?case by (simp add: focus_count_def)
next
  case (Cons hp hs)
  have split: "elapsed (hp # hs) = elapsed [hp] + elapsed hs"
    by (cases hp) simp_all
  with Cons.prems have one: "clock (browser pg) + elapsed [hp] < due" by simp
  from Cons.prems have "hp \<noteq> Unmount" by auto
  from waiting_step [OF Cons.prems(1) this one]
  have w: "waiting timer due (happen hp pg)"
    and c: "clock (browser (happen hp pg)) = clock (browser pg) + elapsed [hp]"
    and a: "activity (happen hp pg) = activity pg @ (if hp = WindowFocus then handleFocus else [])"
    by simp_all
  from Cons.prems c split have "clock (browser (happen hp pg)) + elapsed hs < due" by simp
  with Cons.IH [OF w] Cons.prems(2)
  have "waiting timer due (fold happen hs (happen hp pg))"
    and "activity (fold happen hs (happen hp pg))
           = activity (happen hp pg) @ concat (replicate (focus_count hs) handleFocus)"
    by simp_all
  with a show ?case by (simp add: focus_count_def)
qed

lemma teardown_idle:
  "waiting timer due pg \<Longrightarrow> idle (happen Unmount pg) \<and> activity (happen Unmount pg) = activity pg"
  by (simp add: waiting_def idle_def teardown_def clearTimeout_def removeEventListener_def)

lemma idle_step:
  "idle pg \<Longrightarrow> idle (happen hp pg) \<and> activity (happen hp pg) = activity pg"
  by (cases hp) (simp_all add: idle_def)

lemma idle_run:
  "idle pg \<Longrightarrow> idle (fold happen hs pg) \<and> activity (fold happen hs pg) = activity pg"
proof (induction hs arbitrary: pg)
  case Nil
  then show ?case by simp
next
  case (Cons hp hs)
  from idle_step [OF Cons.prems, of hp] Cons.IH [of "happen hp pg"]
  show ?case by simp
qed

lemma task_runs_when_due:
  assumes "timers h = []" and "listeners h = []"
  shows "activity (fold happen [Elapse 1500, RunDueTimer x] (mount h)) = fst (initializeApp x)"
    and "listeners (browser (fold happen [Elapse 1500, RunDueTimer x] (mount h)))
           = [(''focus'', HandleFocusListener)]"
    and "listeners (browser (mount h :: ('a, 'b, 'c) page)) = [(''focus'', HandleFocusListener)]"
  using assms
  by (simp_all add: mount_page addEventListener_def clearTimeout_def run_callback_def)

section \<open>Failures of the bootstrap task\<close>

text \<open>
  C3. In every execution in which \<^verbatim>\<open>backendSyncService.initialize()\<close> rejects, the error is
  caught and logged and the task goes on: the migration is called exactly when there are
  both reminders and medications, the diagnostic is called, and the check for missed
  notifications is called. The focus listener, which the effect registers when the
  component mounts, is still registered when the task has run, and a focus of the window
  then runs it.
\<close>

theorem later_steps_run_when_initialize_rejects:
  assumes "initialize_outcome x = Inl error"
    and "timers h = []" and "listeners h = []"
  shows "(\<exists>rest. fst (initializeApp x) =
            [Console ConsoleLog [Text ''App loaded, initializing iOS PWA notification system...''],
             Console ConsoleLog [Text ([CHR 0xF0, CHR 0x9F, CHR 0x94, CHR 0x84] @ '' Initializing backend sync service...'')],
             BackendInitialize,
             Console ConsoleError [Text ([CHR 0xE2, CHR 0x9D, CHR 0x8C] @ '' Backend sync initialization failed:''), Thrown error],
             Console ConsoleLog [Text ([CHR 0xF0, CHR 0x9F, CHR 0x93, CHR 0xB1] @ '' Falling back to client-side notifications only'')]] @ rest
          \<and> (MigrateExistingReminders (reminders (store_at_start x)) (medications (store_at_start x))
               \<in> set rest
             \<longleftrightarrow> reminders (store_at_start x) \<noteq> [] \<and> medications (store_at_start x) \<noteq> [])
          \<and> DiagnoseIOSPWANotificationIssues \<in> set rest
          \<and> CheckMissedNotifications \<in> set rest)
    \<and> activity (fold happen [Elapse 1500, RunDueTimer x] (mount h)) = fst (initializeApp x)
    \<and> (''focus'', HandleFocusListener)
        \<in> set (listeners (browser (fold happen [Elapse 1500, RunDueTimer x] (mount h))))
    \<and> activity (fold happen [Elapse 1500, RunDueTimer x, WindowFocus] (mount h))
        = fst (initializeApp x) @ handleFocus"
proof -
  let ?rest = "reminder_migration x
     @ Console ConsoleLog [Text ''Running iOS PWA notification diagnostic and recovery...'']
     # fst (diagnostic_and_recovery x)"
  have "fst (initializeApp x) =
            [Console ConsoleLog [Text ''App loaded, initializing iOS PWA notification system...''],
             Console ConsoleLog [Text ([CHR 0xF0, CHR 0x9F, CHR 0x94, CHR 0x84] @ '' Initializing backend sync service...'')],
             BackendInitialize,
             Console ConsoleError [Text ([CHR 0xE2, CHR 0x9D, CHR 0x8C] @ '' Backend sync initialization failed:''), Thrown error],
             Console ConsoleLog [Text ([CHR 0xF0, CHR 0x9F, CHR 0x93, CHR 0xB1] @ '' Falling back to client-side notifications only'')]] @ ?rest"
    by (simp add: initializeApp_activity backend_sync_rejected [OF assms(1)])
  moreover have "MigrateExistingReminders (reminders (store_at_start x)) (medications (store_at_start x))
               \<in> set ?rest
             \<longleftrightarrow> reminders (store_at_start x) \<noteq> [] \<and> medications (store_at_start x) \<noteq> []"
    using diagnostic_events [of "MigrateExistingReminders (reminders (store_at_start x)) (medications (store_at_start x))" x]
    by (auto simp: migration_invoked_iff)
  moreover have "DiagnoseIOSPWANotificationIssues \<in> set ?rest"
    using diagnose_invoked [of x] by simp
  moreover have "CheckMissedNotifications \<in> set ?rest"
    using check_invoked [of x] by simp
  ultimately have first: "\<exists>rest. fst (initializeApp x) =
            [Console ConsoleLog [Text ''App loaded, initializing iOS PWA notification system...''],
             Console ConsoleLog [Text ([CHR 0xF0, CHR 0x9F, CHR 0x94, CHR 0x84] @ '' Initializing backend sync service...'')],
             BackendInitialize,
             Console ConsoleError [Text ([CHR 0xE2, CHR 0x9D, CHR 0x8C] @ '' Backend sync initialization failed:''), Thrown error],
             Console ConsoleLog [Text ([CHR 0xF0, CHR 0x9F, CHR 0x93, CHR 0xB1] @ '' Falling back to client-side notifications only'')]] @ rest
          \<and> (MigrateExistingReminders (reminders (store_at_start x)) (medications (store_at_start x))
               \<in> set rest
             \<longleftrightarrow> reminders (store_at_start x) \<noteq> [] \<and> medications (store_at_start x) \<noteq> [])
          \<and> DiagnoseIOSPWANotificationIssues \<in> set rest
          \<and> CheckMissedNotifications \<in> set rest"
    by (intro exI [of _ ?rest] conjI)
  have "happen WindowFocus (fold happen [Elapse 1500, RunDueTimer x] (mount h))
      = fold happen [Elapse 1500, RunDueTimer x, WindowFocus] (mount h)"
    by simp
  then have "activity (fold happen [Elapse 1500, RunDueTimer x, WindowFocus] (mount h))
      = fst (initializeApp x) @ handleFocus"
    using task_runs_when_due(1,2) [OF assms(2,3), of x]
    by (simp add: run_listener_def del: fold_simps)
  with first task_runs_when_due(1,2) [OF assms(2,3), of x] show ?thesis
    by simp
qed

theorem later_steps_run_when_initialize_rejects_witness:
  "initialize_outcome rejected_start = Inl ''offline''
   \<and> timers fresh_host = [] \<and> listeners fresh_host = []
   \<and> MigrateExistingReminders [''r1''] [''m1''] \<in> set (fst (initializeApp rejected_start))
   \<and> DiagnoseIOSPWANotificationIssues \<in> set (fst (initializeApp rejected_start))
   \<and> (''focus'', HandleFocusListener)
        \<in> set (listeners (browser
              (fold happen [Elapse 1500, RunDueTimer rejected_start] (mount fresh_host))))"
proof -
  have i: "initialize_outcome rejected_start = Inl ''offline''"
    by (simp add: rejected_start_def)
  have h: "timers fresh_host = []" "listeners fresh_host = []"
    by (simp_all add: fresh_host_def)
  have s: "reminders (store_at_start rejected_start) = [''r1'']"
    "medications (store_at_start rejected_start) = [''m1'']"
    by (simp_all add: rejected_start_def)
  from later_steps_run_when_initialize_rejects [OF i h]
  obtain rest where r: "fst (initializeApp rejected_start) =
            [Console ConsoleLog [Text ''App loaded, initializing iOS PWA notification system...''],
             Console ConsoleLog [Text ([CHR 0xF0, CHR 0x9F, CHR 0x94, CHR 0x84] @ '' Initializing backend sync service...'')],
             BackendInitialize,
             Console ConsoleError [Text ([CHR 0xE2, CHR 0x9D, CHR 0x8C] @ '' Backend sync initialization failed:''), Thrown ''offline''],
             Console ConsoleLog [Text ([CHR 0xF0, CHR 0x9F, CHR 0x93, CHR 0xB1] @ '' Falling back to client-side notifications only'')]] @ rest"
    and m: "MigrateExistingReminders (reminders (store_at_start rejected_start))
              (medications (store_at_start rejected_start)) \<in> set rest
             \<longleftrightarrow> reminders (store_at_start rejected_start) \<noteq> []
               \<and> medications (store_at_start rejected_start) \<noteq> []"
    and d: "DiagnoseIOSPWANotificationIssues \<in> set rest"
    and l: "(''focus'', HandleFocusListener)
        \<in> set (listeners (browser
              (fold happen [Elapse 1500, RunDueTimer rejected_start] (mount fresh_host))))"
    by blast
  from m s have "MigrateExistingReminders [''r1''] [''m1''] \<in> set rest" by simp
  with r d have "MigrateExistingReminders [''r1''] [''m1''] \<in> set (fst (initializeApp rejected_start))"
    and "DiagnoseIOSPWANotificationIssues \<in> set (fst (initializeApp rejected_start))"
    by simp_all
  with i h l show ?thesis by (simp only: simp_thms)
qed

text \<open>
  C9. In every execution in which \<^verbatim>\<open>backendSyncService.initialize()\<close> rejects,
  \<^verbatim>\<open>syncUserDataToBackend\<close> is not called, with any arguments, also when there are reminders
  or medications: the call stands in the same \<^verbatim>\<open>try\<close> as the initialization. When the
  initialization resolves and there are reminders or medications, it is called.
\<close>

theorem sync_skipped_when_initialize_rejects:
  "(initialize_outcome x = Inl error \<longrightarrow>
      SyncUserDataToBackend rs ms pr \<notin> set (fst (initializeApp x)))
   \<and> (initialize_outcome x = Inr ()
        \<and> (reminders (store_at_start x) \<noteq> [] \<or> medications (store_at_start x) \<noteq> []) \<longrightarrow>
      SyncUserDataToBackend (reminders (store_at_start x)) (medications (store_at_start x))
        (userProfile (store_at_sync x)) \<in> set (fst (initializeApp x)))"
proof (intro conjI impI)
  assume rejected: "initialize_outcome x = Inl error"
  show "SyncUserDataToBackend rs ms pr \<notin> set (fst (initializeApp x))"
  proof
    assume "SyncUserDataToBackend rs ms pr \<in> set (fst (initializeApp x))"
    then consider "SyncUserDataToBackend rs ms pr \<in> set (backend_sync x)"
      | "SyncUserDataToBackend rs ms pr \<in> set (reminder_migration x)"
      | "SyncUserDataToBackend rs ms pr \<in> set (fst (diagnostic_and_recovery x))"
      by (auto simp: initializeApp_activity)
    then show False
    proof cases
      case 1
      then show False by (simp add: backend_sync_rejected [OF rejected])
    next
      case 2
      then show False using migration_only_migrates by fastforce
    next
      case 3
      then show False using diagnostic_events by fastforce
    qed
  qed
next
  assume "initialize_outcome x = Inr ()
    \<and> (reminders (store_at_start x) \<noteq> [] \<or> medications (store_at_start x) \<noteq> [])"
  then show "SyncUserDataToBackend (reminders (store_at_start x)) (medications (store_at_start x))
        (userProfile (store_at_sync x)) \<in> set (fst (initializeApp x))"
    using sync_invoked_after_initialize [of x "()"] by (simp add: initializeApp_activity)
qed

theorem sync_skipped_when_initialize_rejects_witness:
  "initialize_outcome rejected_start = Inl ''offline''
   \<and> reminders (store_at_start rejected_start) = [''r1'']
   \<and> medications (store_at_start rejected_start) = [''m1'']
   \<and> SyncUserDataToBackend [''r1''] [''m1''] None \<notin> set (fst (initializeApp rejected_start))
   \<and> SyncUserDataToBackend [''r1''] [''m1''] None
       \<in> set (fst (initializeApp (rejected_start\<lparr>initialize_outcome := Inr ()\<rparr>)))"
  using sync_skipped_when_initialize_rejects
          [of rejected_start "''offline''" "[''r1'']" "[''m1'']" None]
        sync_skipped_when_initialize_rejects
          [of "rejected_start\<lparr>initialize_outcome := Inr ()\<rparr>"]
  by (simp add: rejected_start_def)

text \<open>
  C4. Every execution of the task calls \<^verbatim>\<open>checkMissedNotifications\<close>. The recovery routine
  is called exactly when the diagnostic resolves and its \<^verbatim>\<open>coreIssue\<close> includes
  \<^verbatim>\<open>iOS Safari\<close>. When the diagnostic resolves, the recovery (if it is called) resolves and
  the check returns, the task ends with the diagnostic, the recovery (if called) and the one
  call of the check. When the diagnostic rejects, the task ends with the diagnostic, the
  logged error and the one call of the check in the \<^verbatim>\<open>catch\<close>. The check is called once,
  except when the call in the \<^verbatim>\<open>try\<close> itself throws: then the \<^verbatim>\<open>catch\<close> calls it a
  second time.
\<close>

theorem missed_check_always_invoked:
  "CheckMissedNotifications \<in> set (fst (initializeApp x))
   \<and> (ImplementMissedDoseRecovery \<in> set (fst (initializeApp x)) \<longleftrightarrow>
        (\<exists>d. diagnose_outcome x = Inr d \<and> str_includes (coreIssue d) ''iOS Safari''))
   \<and> (diagnose_outcome x = Inr d
        \<and> (str_includes (coreIssue d) ''iOS Safari'' \<longrightarrow> recovery_outcome x = Inr ())
        \<and> check_outcome x = None \<longrightarrow>
        suffix
          ([DiagnoseIOSPWANotificationIssues,
            Console ConsoleLog [Text ([CHR 0xF0, CHR 0x9F, CHR 0x93, CHR 0x8A] @ '' iOS PWA Notification Diagnostic Results:''), DiagnosticResult d]]
           @ (if str_includes (coreIssue d) ''iOS Safari''
              then [Console ConsoleLog [Text ([CHR 0xF0, CHR 0x9F, CHR 0x8D, CHR 0x8E] @ '' iOS PWA detected - implementing missed dose recovery system'')], ImplementMissedDoseRecovery]
              else [])
           @ [CheckMissedNotifications])
          (fst (initializeApp x))
        \<and> count_list (fst (initializeApp x)) CheckMissedNotifications = 1)
   \<and> (diagnose_outcome x = Inl error \<longrightarrow>
        suffix
          [DiagnoseIOSPWANotificationIssues,
           Console ConsoleError [Text ([CHR 0xE2, CHR 0x9D, CHR 0x8C] @ '' Failed to run iOS PWA diagnostic:''), Thrown error],
           CheckMissedNotifications]
          (fst (initializeApp x))
        \<and> count_list (fst (initializeApp x)) CheckMissedNotifications = 1)
   \<and> count_list (fst (initializeApp x)) CheckMissedNotifications =
       (if (\<exists>d. diagnose_outcome x = Inr d
                \<and> (str_includes (coreIssue d) ''iOS Safari'' \<longrightarrow> recovery_outcome x = Inr ()))
           \<and> check_outcome x \<noteq> None
        then 2 else 1)"
proof (intro conjI impI)
  show "CheckMissedNotifications \<in> set (fst (initializeApp x))"
    using check_invoked [of x] by (simp add: initializeApp_activity)
  show "ImplementMissedDoseRecovery \<in> set (fst (initializeApp x)) \<longleftrightarrow>
        (\<exists>d. diagnose_outcome x = Inr d \<and> str_includes (coreIssue d) ''iOS Safari'')"
    using no_recovery_before_diagnostic [of x] recovery_invoked_iff [of x]
    by (simp add: initializeApp_activity)
  show "count_list (fst (initializeApp x)) CheckMissedNotifications =
       (if (\<exists>d. diagnose_outcome x = Inr d
                \<and> (str_includes (coreIssue d) ''iOS Safari'' \<longrightarrow> recovery_outcome x = Inr ()))
           \<and> check_outcome x \<noteq> None
        then 2 else 1)"
    by (simp only: check_count_in_task check_count)
next
  assume a: "diagnose_outcome x = Inr d
        \<and> (str_includes (coreIssue d) ''iOS Safari'' \<longrightarrow> recovery_outcome x = Inr ())
        \<and> check_outcome x = None"
  then have "fst (diagnostic_and_recovery x) =
     [DiagnoseIOSPWANotificationIssues,
      Console ConsoleLog [Text ([CHR 0xF0, CHR 0x9F, CHR 0x93, CHR 0x8A] @ '' iOS PWA Notification Diagnostic Results:''), DiagnosticResult d]]
     @ (if str_includes (coreIssue d) ''iOS Safari''
        then [Console ConsoleLog [Text ([CHR 0xF0, CHR 0x9F, CHR 0x8D, CHR 0x8E] @ '' iOS PWA detected - implementing missed dose recovery system'')], ImplementMissedDoseRecovery]
        else [])
     @ [CheckMissedNotifications]"
    by (simp add: diagnostic_completes)
  then show "suffix
          ([DiagnoseIOSPWANotificationIssues,
            Console ConsoleLog [Text ([CHR 0xF0, CHR 0x9F, CHR 0x93, CHR 0x8A] @ '' iOS PWA Notification Diagnostic Results:''), DiagnosticResult d]]
           @ (if str_includes (coreIssue d) ''iOS Safari''
              then [Console ConsoleLog [Text ([CHR 0xF0, CHR 0x9F, CHR 0x8D, CHR 0x8E] @ '' iOS PWA detected - implementing missed dose recovery system'')], ImplementMissedDoseRecovery]
              else [])
           @ [CheckMissedNotifications])
          (fst (initializeApp x))"
    using diagnostic_is_last [of x] by simp
  from a show "count_list (fst (initializeApp x)) CheckMissedNotifications = 1"
    by (simp add: check_count_in_task check_count)
next
  assume a: "diagnose_outcome x = Inl error"
  then show "suffix
          [DiagnoseIOSPWANotificationIssues,
           Console ConsoleError [Text ([CHR 0xE2, CHR 0x9D, CHR 0x8C] @ '' Failed to run iOS PWA diagnostic:''), Thrown error],
           CheckMissedNotifications]
          (fst (initializeApp x))"
    using diagnostic_is_last [of x] by (simp add: diagnostic_rejected)
  from a show "count_list (fst (initializeApp x)) CheckMissedNotifications = 1"
    by (simp add: check_count_in_task check_count)
qed

theorem missed_check_always_invoked_witness:
  "diagnose_outcome rejected_start
     = Inr \<lparr>coreIssue = ''iOS Safari PWA suppresses background notifications''\<rparr>
   \<and> str_includes ''iOS Safari PWA suppresses background notifications'' ''iOS Safari''
   \<and> recovery_outcome rejected_start = Inr ()
   \<and> check_outcome rejected_start = None
   \<and> ImplementMissedDoseRecovery \<in> set (fst (initializeApp rejected_start))
   \<and> count_list (fst (initializeApp rejected_start)) CheckMissedNotifications = 1
   \<and> diagnose_outcome (rejected_start\<lparr>diagnose_outcome := Inl ''denied''\<rparr>) = Inl ''denied''
   \<and> ImplementMissedDoseRecovery
       \<notin> set (fst (initializeApp (rejected_start\<lparr>diagnose_outcome := Inl ''denied''\<rparr>)))
   \<and> count_list (fst (initializeApp (rejected_start\<lparr>diagnose_outcome := Inl ''denied''\<rparr>)))
         CheckMissedNotifications = 1"
proof -
  have marker: "str_includes ''iOS Safari PWA suppresses background notifications'' ''iOS Safari''"
    by (simp add: str_includes_def sublist_code(3))
  have d: "diagnose_outcome rejected_start
     = Inr \<lparr>coreIssue = ''iOS Safari PWA suppresses background notifications''\<rparr>"
    and r: "recovery_outcome rejected_start = Inr ()"
    and c: "check_outcome rejected_start = None"
    by (simp_all add: rejected_start_def)
  have e: "diagnose_outcome (rejected_start\<lparr>diagnose_outcome := Inl ''denied''\<rparr>) = Inl ''denied''"
    by simp
  from marker d r c
    missed_check_always_invoked
      [of rejected_start "\<lparr>coreIssue = ''iOS Safari PWA suppresses background notifications''\<rparr>"]
  have "ImplementMissedDoseRecovery \<in> set (fst (initializeApp rejected_start))
    \<and> count_list (fst (initializeApp rejected_start)) CheckMissedNotifications = 1"
    by simp
  moreover from e
    missed_check_always_invoked
      [of "rejected_start\<lparr>diagnose_outcome := Inl ''denied''\<rparr>" _ "''denied''"]
  have "ImplementMissedDoseRecovery
       \<notin> set (fst (initializeApp (rejected_start\<lparr>diagnose_outcome := Inl ''denied''\<rparr>)))
    \<and> count_list (fst (initializeApp (rejected_start\<lparr>diagnose_outcome := Inl ''denied''\<rparr>)))
         CheckMissedNotifications = 1"
    by simp
  ultimately show ?thesis using marker d r c e by simp
qed

section \<open>Unmounting before the timer fires\<close>

text \<open>
  C7. The component mounts on a browser with no timers and no listeners. If it unmounts
  while less than 1500 milliseconds have passed, then whatever happens before and after,
  the bootstrap task never runs: all that has run is the focus listener, once for each focus
  of the window before the unmount, and after the unmount no timer is pending and no
  listener is registered.
\<close>

theorem unmount_before_delay_cancels_task:
  assumes "timers h = []" and "listeners h = []"
    and "Unmount \<notin> set before" and "elapsed before < 1500"
  shows "activity (fold happen (before @ Unmount # after) (mount h))
           = concat (replicate (focus_count before) handleFocus)
    \<and> timers (browser (fold happen (before @ Unmount # after) (mount h))) = []
    \<and> listeners (browser (fold happen (before @ Unmount # after) (mount h))) = []"
proof -
  let ?pg = "mount h :: ('a, 'b, 'c) page"
  have w: "waiting (next_timer_id h) (clock h + 1500) ?pg"
    using assms(1,2) by (rule mount_waiting)
  have c: "clock (browser ?pg) = clock h" and a: "activity ?pg = []"
    by (simp_all add: mount_page addEventListener_def)
  from assms(4) c have "clock (browser ?pg) + elapsed before < clock h + 1500" by simp
  from waiting_run [OF w assms(3) this] a
  have w': "waiting (next_timer_id h) (clock h + 1500) (fold happen before ?pg)"
    and a': "activity (fold happen before ?pg) = concat (replicate (focus_count before) handleFocus)"
    by simp_all
  from teardown_idle [OF w'] a'
  have i: "idle (happen Unmount (fold happen before ?pg))"
    and a'': "activity (happen Unmount (fold happen before ?pg))
               = concat (replicate (focus_count before) handleFocus)"
    by simp_all
  from idle_run [OF i, of after] a'' show ?thesis
    by (simp add: idle_def)
qed

theorem unmount_before_delay_cancels_task_witness:
  "timers fresh_host = [] \<and> listeners fresh_host = []
   \<and> Unmount \<notin> set [Elapse 700, WindowFocus, RunDueTimer rejected_start, Elapse 799]
   \<and> elapsed [Elapse 700, WindowFocus, RunDueTimer rejected_start, Elapse 799] < 1500
   \<and> activity (fold happen
        ([Elapse 700, WindowFocus, RunDueTimer rejected_start, Elapse 799]
         @ Unmount # [Elapse 5000, RunDueTimer rejected_start, WindowFocus])
        (mount fresh_host))
      = handleFocus"
proof -
  let ?before = "[Elapse 700, WindowFocus, RunDueTimer rejected_start, Elapse 799]"
  let ?after = "[Elapse 5000, RunDueTimer rejected_start, WindowFocus]"
  have h: "timers fresh_host = []" "listeners fresh_host = []"
    by (simp_all add: fresh_host_def)
  have u: "Unmount \<notin> set ?before" by simp
  have e: "elapsed ?before < 1500" by simp
  have f: "concat (replicate (focus_count ?before) handleFocus) = handleFocus"
    by (simp add: focus_count_def)
  from unmount_before_delay_cancels_task [OF h u e, of ?after]
  have "activity (fold happen (?before @ Unmount # ?after) (mount fresh_host)) = handleFocus"
    by (simp only: f)
  with h u e show ?thesis by (simp only: simp_thms)
qed

end
